theory Spec2Isabelle
  imports Main "HOL-Library.Word"
begin

section \<open>ZSTL: polymorphic memory resources and the growable vector\<close>

text \<open>
  A shallow embedding of \<^verbatim>\<open>include/ZSTL/memory_resource.hpp\<close> and of the growth path of
  \<^verbatim>\<open>include/ZSTL/vector.hpp\<close>.

  \<^item> \<^verbatim>\<open>std::size_t\<close> is a 64-bit word (LP64); multiplication and addition wrap.
  \<^item> A pointer is a natural number, \<open>nullptr\<close> is 0. Pointer arithmetic
    \<^verbatim>\<open>p + n\<close> is addition of naturals.
  \<^item> The abstract class \<^verbatim>\<open>memory_resource\<close> is the record of its three pure virtual
    functions, each over the state \<open>'s\<close> of the object that implements them.
  \<^item> An exception, and a write through a null pointer, is a value of \<open>error\<close>.
\<close>

subsection \<open>Sizes, pointers, errors\<close>

type_synonym size_t = "64 word"
type_synonym addr = nat

definition nullptr :: addr where
  "nullptr = 0"

text \<open>\<^verbatim>\<open>alignof(std::max_align_t)\<close> on LP64.\<close>

definition alignof_max_align_t :: size_t where
  "alignof_max_align_t = 16"

text \<open>\<^verbatim>\<open>std::numeric_limits<std::size_t>::max()\<close>.\<close>

definition size_t_max :: size_t where
  "size_t_max = - 1"

text \<open>
  \<open>bad_array_new_length\<close> is thrown by \<^verbatim>\<open>allocate_object\<close>; \<open>resource_exception n\<close> is
  an exception thrown by a provider's own \<^verbatim>\<open>do_allocate\<close> (the number tells exceptions
  apart). The others are accesses that C++ leaves undefined: \<open>null_dereference\<close> through
  a null pointer, \<open>invalid_pointer\<close> where nothing was allocated, \<open>out_of_bounds\<close> past
  the end of an allocation, \<open>use_after_free\<close> in an allocation that was given back, and
  \<open>uninitialized_read\<close> of a slot that holds no object.
\<close>

datatype error =
    bad_array_new_length
  | resource_exception nat
  | null_dereference
  | invalid_pointer
  | out_of_bounds
  | use_after_free
  | uninitialized_read

subsection \<open>class memory_resource\<close>

text \<open>
  The three private pure virtual functions. \<^verbatim>\<open>do_is_equal\<close> receives \<^verbatim>\<open>this\<close> and the
  address of \<^verbatim>\<open>other\<close>.
\<close>

record 's memory_resource =
  do_allocate :: "size_t \<Rightarrow> size_t \<Rightarrow> 's \<Rightarrow> (error + addr) \<times> 's"
  do_deallocate :: "addr \<Rightarrow> size_t \<Rightarrow> size_t \<Rightarrow> 's \<Rightarrow> 's"
  do_is_equal :: "addr \<Rightarrow> addr \<Rightarrow> bool"

text \<open>\<^verbatim>\<open>if (bytes == 0uz) { return nullptr; } return do_allocate(bytes, alignment);\<close>\<close>

definition allocate :: "'s memory_resource \<Rightarrow> size_t \<Rightarrow> size_t \<Rightarrow> 's \<Rightarrow> (error + addr) \<times> 's" where
  "allocate r bytes alignment s =
     (if bytes = 0 then (Inr nullptr, s) else do_allocate r bytes alignment s)"

text \<open>\<^verbatim>\<open>if (!p) { return ; } return do_deallocate(p, bytes, alignment);\<close>\<close>

definition deallocate :: "'s memory_resource \<Rightarrow> addr \<Rightarrow> size_t \<Rightarrow> size_t \<Rightarrow> 's \<Rightarrow> 's" where
  "deallocate r p bytes alignment s =
     (if p = nullptr then s else do_deallocate r p bytes alignment s)"

definition is_equal :: "'s memory_resource \<Rightarrow> addr \<Rightarrow> addr \<Rightarrow> bool" where
  "is_equal r this other = do_is_equal r this other"

text \<open>\<^verbatim>\<open>operator==(const memory_resource &a, const memory_resource &b)\<close>.\<close>

definition memory_resource_eq :: "'s memory_resource \<Rightarrow> addr \<Rightarrow> addr \<Rightarrow> bool" where
  "memory_resource_eq r a b = is_equal r a b"

subsection \<open>An observing provider\<close>

text \<open>
  A user-defined provider that forwards every virtual call to \<open>r\<close> and writes it down
  first. It is the means to say which calls reach a provider.
\<close>

datatype event = DoAllocate size_t size_t | DoDeallocate addr size_t size_t

definition recording :: "'s memory_resource \<Rightarrow> ('s \<times> event list) memory_resource" where
  "recording r =
     \<lparr>do_allocate = (\<lambda>bytes alignment (s, evs).
        (fst (do_allocate r bytes alignment s),
         (snd (do_allocate r bytes alignment s), evs @ [DoAllocate bytes alignment]))),
      do_deallocate = (\<lambda>p bytes alignment (s, evs).
        (do_deallocate r p bytes alignment s, evs @ [DoDeallocate p bytes alignment])),
      do_is_equal = do_is_equal r\<rparr>"

subsection \<open>class NewDeleteResource\<close>

text \<open>
  The allocation primitives of the platform are not part of the repository; they are a
  parameter, over the state \<open>'h\<close> of the platform's heap. \<open>posix_memalign\<close> returns its
  result code and the pointer it stored.
\<close>

record 'h platform =
  aligned_malloc :: "size_t \<Rightarrow> size_t \<Rightarrow> 'h \<Rightarrow> addr \<times> 'h"
  malloc :: "size_t \<Rightarrow> 'h \<Rightarrow> addr \<times> 'h"
  posix_memalign :: "size_t \<Rightarrow> size_t \<Rightarrow> 'h \<Rightarrow> (int \<times> addr) \<times> 'h"
  memalign :: "size_t \<Rightarrow> size_t \<Rightarrow> 'h \<Rightarrow> addr \<times> 'h"
  aligned_free :: "addr \<Rightarrow> 'h \<Rightarrow> 'h"
  free :: "addr \<Rightarrow> 'h \<Rightarrow> 'h"

text \<open>Which branch of the \<^verbatim>\<open>#if\<close> in \<^verbatim>\<open>NewDeleteResource\<close> is compiled.\<close>

datatype build = HAVE_ALIGNED_MALLOC | HAVE_POSIX_MEMALIGN | HAVE_NEITHER

text \<open>\<^verbatim>\<open>sizeof(void *)\<close> on LP64.\<close>

definition sizeof_void_ptr :: size_t where
  "sizeof_void_ptr = 8"

definition NewDeleteResource_do_allocate ::
  "build \<Rightarrow> 'h platform \<Rightarrow> size_t \<Rightarrow> size_t \<Rightarrow> 'h \<Rightarrow> (error + addr) \<times> 'h" where
  "NewDeleteResource_do_allocate b pf sz alignment h =
     (case b of
        HAVE_ALIGNED_MALLOC \<Rightarrow>
          (Inr (fst (aligned_malloc pf sz alignment h)), snd (aligned_malloc pf sz alignment h))
      | HAVE_POSIX_MEMALIGN \<Rightarrow>
          (if alignment < sizeof_void_ptr
           then (Inr (fst (malloc pf sz h)), snd (malloc pf sz h))
           else (Inr (if fst (fst (posix_memalign pf alignment sz h)) \<noteq> 0 then nullptr
                      else snd (fst (posix_memalign pf alignment sz h))),
                 snd (posix_memalign pf alignment sz h)))
      | HAVE_NEITHER \<Rightarrow>
          (Inr (fst (memalign pf alignment sz h)), snd (memalign pf alignment sz h)))"

definition NewDeleteResource_do_deallocate ::
  "build \<Rightarrow> 'h platform \<Rightarrow> addr \<Rightarrow> size_t \<Rightarrow> size_t \<Rightarrow> 'h \<Rightarrow> 'h" where
  "NewDeleteResource_do_deallocate b pf p bytes alignment h =
     (if p = nullptr then h
      else (case b of HAVE_ALIGNED_MALLOC \<Rightarrow> aligned_free pf p h | _ \<Rightarrow> free pf p h))"

text \<open>\<^verbatim>\<open>return this == &other;\<close>\<close>

definition NewDeleteResource_do_is_equal :: "addr \<Rightarrow> addr \<Rightarrow> bool" where
  "NewDeleteResource_do_is_equal this other = (this = other)"

definition NewDeleteResource :: "build \<Rightarrow> 'h platform \<Rightarrow> 'h memory_resource" where
  "NewDeleteResource b pf =
     \<lparr>do_allocate = NewDeleteResource_do_allocate b pf,
      do_deallocate = NewDeleteResource_do_deallocate b pf,
      do_is_equal = NewDeleteResource_do_is_equal\<rparr>"

subsection \<open>class monotonic_buffer_resource\<close>

text \<open>
  \<^verbatim>\<open>struct block { void *ptr; std::size_t size; block *next; }\<close>. The chain through
  \<^verbatim>\<open>next\<close> is the order of the list \<open>block_list\<close>, head first; \<open>blk_addr\<close> is the address
  of the header itself, the value of the \<^verbatim>\<open>block *\<close>.
\<close>

record block =
  blk_addr :: addr
  blk_ptr :: addr
  blk_size :: size_t

text \<open>\<^verbatim>\<open>sizeof(block)\<close> and \<^verbatim>\<open>alignof(block)\<close> on LP64: two pointers and a size.\<close>

definition sizeof_block :: size_t where
  "sizeof_block = 24"

definition alignof_block :: size_t where
  "alignof_block = 8"

text \<open>
  The fields of the class. \<open>upstream\<close> is the pointer to the upstream provider; what that
  provider does is the \<open>memory_resource\<close> passed to each member function, and its state
  travels beside the arena's. \<open>current\<close> is \<open>None\<close> for \<^verbatim>\<open>nullptr\<close>.
\<close>

record monotonic_buffer_resource =
  upstream :: addr
  block_size :: size_t
  current :: "block option"
  current_pos :: size_t
  block_list :: "block list"

text \<open>The member initialisers: \<^verbatim>\<open>block_size { 256 * 1024uz }\<close> and null pointers.\<close>

definition monotonic_init_upstream :: "addr \<Rightarrow> monotonic_buffer_resource" where
  "monotonic_init_upstream up_ptr =
     \<lparr>upstream = up_ptr, block_size = 256 * 1024, current = None, current_pos = 0,
      block_list = []\<rparr>"

definition monotonic_init :: "size_t \<Rightarrow> addr \<Rightarrow> monotonic_buffer_resource" where
  "monotonic_init initial_size up_ptr =
     \<lparr>upstream = up_ptr, block_size = initial_size, current = None, current_pos = 0,
      block_list = []\<rparr>"

text \<open>
  \<^verbatim>\<open>allocate_block\<close>: one upstream allocation for header and payload. The header fields are
  written through the returned pointer with no test of it: a null pointer from the
  upstream provider is dereferenced.
\<close>

definition allocate_block ::
  "'u memory_resource \<Rightarrow> size_t \<Rightarrow> monotonic_buffer_resource \<times> 'u
     \<Rightarrow> (error + block) \<times> monotonic_buffer_resource \<times> 'u" where
  "allocate_block up sz st =
     (case st of (a, u) \<Rightarrow>
        (case allocate up (sizeof_block + sz) alignof_block u of
           (Inl e, u') \<Rightarrow> (Inl e, (a, u'))
         | (Inr b, u') \<Rightarrow>
             (if b = nullptr then (Inl null_dereference, (a, u'))
              else (Inr \<lparr>blk_addr = b, blk_ptr = b + unat sizeof_block, blk_size = sz\<rparr>,
                    (a\<lparr>block_list :=
                         \<lparr>blk_addr = b, blk_ptr = b + unat sizeof_block, blk_size = sz\<rparr>
                         # block_list a\<rparr>, u')))))"

text \<open>\<^verbatim>\<open>this->upstream->deallocate(b, sizeof(block) + b->size);\<close>\<close>

definition free_block :: "'u memory_resource \<Rightarrow> block \<Rightarrow> 'u \<Rightarrow> 'u" where
  "free_block up b u =
     deallocate up (blk_addr b) (sizeof_block + blk_size b) alignof_max_align_t u"

text \<open>The \<^verbatim>\<open>while (b)\<close> loop of \<^verbatim>\<open>release\<close>.\<close>

fun release_loop :: "'u memory_resource \<Rightarrow> block list \<Rightarrow> 'u \<Rightarrow> 'u" where
  "release_loop up [] u = u"
| "release_loop up (b # next) u = release_loop up next (free_block up b u)"

definition release ::
  "'u memory_resource \<Rightarrow> monotonic_buffer_resource \<times> 'u \<Rightarrow> monotonic_buffer_resource \<times> 'u" where
  "release up st =
     (case st of (a, u) \<Rightarrow>
        (a\<lparr>block_list := [], current := None\<rparr>, release_loop up (block_list a) u))"

text \<open>
  \<^verbatim>\<open>if (bytes > this->block_size) { this->upstream->deallocate(p, bytes); }\<close>
  The upstream call leaves the alignment to its default argument.
\<close>

definition monotonic_do_deallocate ::
  "'u memory_resource \<Rightarrow> addr \<Rightarrow> size_t \<Rightarrow> size_t \<Rightarrow> monotonic_buffer_resource \<times> 'u
     \<Rightarrow> monotonic_buffer_resource \<times> 'u" where
  "monotonic_do_deallocate up p bytes alignment st =
     (case st of (a, u) \<Rightarrow>
        (if bytes > block_size a then (a, deallocate up p bytes alignof_max_align_t u)
         else (a, u)))"

text \<open>\<^verbatim>\<open>return this == &other;\<close>\<close>

definition monotonic_do_is_equal :: "addr \<Rightarrow> addr \<Rightarrow> bool" where
  "monotonic_do_is_equal this other = (this = other)"

text \<open>
  Modelled from the spec: the body of \<^verbatim>\<open>monotonic_buffer_resource::do_allocate\<close>, which the
  header declares and the sources do not define. The spec (4.3) says: a request above the
  block-size threshold goes to the upstream provider as a standalone allocation of exactly
  \<open>bytes\<close> at \<open>alignment\<close> and is not tracked; otherwise, if there is no current block or
  the current block cannot hold \<open>bytes\<close> from the offset rounded up to \<open>alignment\<close>, a new
  block of \<open>max(bytes, default_block_size)\<close> is obtained (through \<open>allocate_block\<close>, which
  pushes it on the head of the list) and the default block size doubles for the next such
  event; then the offset is rounded up to the next multiple of \<open>alignment\<close>, the address is
  the block's base address plus the rounded offset, and the offset advances to the rounded
  offset plus \<open>bytes\<close>.
\<close>

text \<open>Modelled from the spec: "round up to the next multiple of \<open>alignment\<close>".\<close>

definition round_up :: "nat \<Rightarrow> nat \<Rightarrow> nat" where
  "round_up n a = ((n + a - 1) div a) * a"

text \<open>
  Modelled from the spec: there is a current block and it can hold \<open>bytes\<close> from the
  offset rounded up to \<open>alignment\<close>.
\<close>

definition fits :: "monotonic_buffer_resource \<Rightarrow> size_t \<Rightarrow> size_t \<Rightarrow> bool" where
  "fits a bytes alignment =
     (case current a of
        None \<Rightarrow> False
      | Some b \<Rightarrow>
          round_up (unat (current_pos a)) (unat alignment) + unat bytes \<le> unat (blk_size b))"

text \<open>
  Modelled from the spec (step 2): the address is the base address of the current block
  plus the rounded offset, and the offset advances to the rounded offset plus \<open>bytes\<close>.
\<close>

definition carve ::
  "monotonic_buffer_resource \<Rightarrow> size_t \<Rightarrow> size_t \<Rightarrow> (error + addr) \<times> monotonic_buffer_resource" where
  "carve a bytes alignment =
     (case current a of
        None \<Rightarrow> (Inl null_dereference, a)
      | Some b \<Rightarrow>
          (Inr (blk_ptr b + round_up (unat (current_pos a)) (unat alignment)),
           a\<lparr>current_pos :=
               of_nat (round_up (unat (current_pos a)) (unat alignment) + unat bytes)\<rparr>))"

text \<open>
  Modelled from the spec (steps 1 and 3): the standalone path first, then the current
  block if the request fits, else a new block, which becomes the current one with offset 0.
\<close>

definition monotonic_do_allocate ::
  "'u memory_resource \<Rightarrow> size_t \<Rightarrow> size_t \<Rightarrow> monotonic_buffer_resource \<times> 'u
     \<Rightarrow> (error + addr) \<times> monotonic_buffer_resource \<times> 'u" where
  "monotonic_do_allocate up bytes alignment st =
     (case st of (a, u) \<Rightarrow>
        (if bytes > block_size a
         then (fst (allocate up bytes alignment u), (a, snd (allocate up bytes alignment u)))
         else if fits a bytes alignment
         then (fst (carve a bytes alignment), (snd (carve a bytes alignment), u))
         else (case allocate_block up (max bytes (block_size a)) (a, u) of
                 (Inl e, st') \<Rightarrow> (Inl e, st')
               | (Inr b, (a', u')) \<Rightarrow>
                   (fst (carve (a'\<lparr>current := Some b, current_pos := 0,
                                   block_size := 2 * block_size a'\<rparr>) bytes alignment),
                    (snd (carve (a'\<lparr>current := Some b, current_pos := 0,
                                    block_size := 2 * block_size a'\<rparr>) bytes alignment),
                     u')))))"

text \<open>The class as a provider: its three overrides, over an upstream provider \<open>up\<close>.\<close>

definition monotonic ::
  "'u memory_resource \<Rightarrow> (monotonic_buffer_resource \<times> 'u) memory_resource" where
  "monotonic up =
     \<lparr>do_allocate = monotonic_do_allocate up,
      do_deallocate = monotonic_do_deallocate up,
      do_is_equal = monotonic_do_is_equal\<rparr>"

subsection \<open>class polymorphic_allocator\<close>

text \<open>
  The handle holds the pointer \<^verbatim>\<open>memoryResource\<close>. Its member functions act on the
  provider \<open>r\<close> the pointer refers to; a template parameter \<^verbatim>\<open>U\<close> is given by
  \<^verbatim>\<open>sizeof(U)\<close> and \<^verbatim>\<open>alignof(U)\<close>.
\<close>

record polymorphic_allocator =
  memoryResource :: addr

text \<open>\<^verbatim>\<open>polymorphic_allocator(memory_resource *r) : memoryResource(r)\<close>\<close>

definition polymorphic_allocator_of :: "addr \<Rightarrow> polymorphic_allocator" where
  "polymorphic_allocator_of r = \<lparr>memoryResource = r\<rparr>"

definition resource :: "polymorphic_allocator \<Rightarrow> addr" where
  "resource a = memoryResource a"

text \<open>\<^verbatim>\<open>return a.resource() == b.resource();\<close>: a comparison of the two pointers.\<close>

definition polymorphic_allocator_eq :: "polymorphic_allocator \<Rightarrow> polymorphic_allocator \<Rightarrow> bool" where
  "polymorphic_allocator_eq a b = (resource a = resource b)"

definition allocate_bytes ::
  "'s memory_resource \<Rightarrow> size_t \<Rightarrow> size_t \<Rightarrow> 's \<Rightarrow> (error + addr) \<times> 's" where
  "allocate_bytes r nbytes alignment s = allocate r nbytes alignment s"

definition deallocate_bytes ::
  "'s memory_resource \<Rightarrow> addr \<Rightarrow> size_t \<Rightarrow> size_t \<Rightarrow> 's \<Rightarrow> 's" where
  "deallocate_bytes r p nbytes alignment s = deallocate r p nbytes alignment s"

text \<open>
  \<^verbatim>\<open>if (std::numeric_limits<std::size_t>::max() / sizeof(U) < n) throw std::bad_array_new_length();\<close>
  \<^verbatim>\<open>return static_cast<U *>(allocate_bytes(n * sizeof(U), alignof(U)));\<close>
\<close>

definition allocate_object ::
  "'s memory_resource \<Rightarrow> size_t \<Rightarrow> size_t \<Rightarrow> size_t \<Rightarrow> 's \<Rightarrow> (error + addr) \<times> 's" where
  "allocate_object r sizeof_U alignof_U n s =
     (if size_t_max div sizeof_U < n then (Inl bad_array_new_length, s)
      else allocate_bytes r (n * sizeof_U) alignof_U s)"

definition deallocate_object ::
  "'s memory_resource \<Rightarrow> size_t \<Rightarrow> size_t \<Rightarrow> addr \<Rightarrow> size_t \<Rightarrow> 's \<Rightarrow> 's" where
  "deallocate_object r sizeof_U alignof_U p n s =
     deallocate_bytes r p (n * sizeof_U) alignof_U s"

subsection \<open>class vector\<close>

text \<open>
  The memory the vector works in. Each allocation is known by its base address and holds
  one slot for each object it has room for: \<open>Some x\<close> is a constructed object, \<open>None\<close>
  raw memory. An allocation that was given back is kept as \<open>Released\<close>, with what it held
  at that moment; using it is an error.
\<close>

datatype 'a allocation = Live "'a option list" | Released "'a option list"

type_synonym 'a memory = "addr \<Rightarrow> 'a allocation option"

definition live :: "'a memory \<Rightarrow> addr \<Rightarrow> error + 'a option list" where
  "live m base =
     (if base = nullptr then Inl null_dereference
      else (case m base of
              None \<Rightarrow> Inl invalid_pointer
            | Some (Released region) \<Rightarrow> Inl use_after_free
            | Some (Live region) \<Rightarrow> Inr region))"

text \<open>
  \<^verbatim>\<open>construct(base + i, x)\<close>, \<^verbatim>\<open>destroy(base + i)\<close> and the read of \<^verbatim>\<open>base[i]\<close>.
\<close>

definition construct :: "'a memory \<Rightarrow> addr \<Rightarrow> nat \<Rightarrow> 'a \<Rightarrow> error + 'a memory" where
  "construct m base i x =
     (case live m base of
        Inl e \<Rightarrow> Inl e
      | Inr region \<Rightarrow>
          (if i < length region then Inr (m(base \<mapsto> Live (region[i := Some x])))
           else Inl out_of_bounds))"

definition destroy :: "'a memory \<Rightarrow> addr \<Rightarrow> nat \<Rightarrow> error + 'a memory" where
  "destroy m base i =
     (case live m base of
        Inl e \<Rightarrow> Inl e
      | Inr region \<Rightarrow>
          (if i < length region then Inr (m(base \<mapsto> Live (region[i := None])))
           else Inl out_of_bounds))"

definition read :: "'a memory \<Rightarrow> addr \<Rightarrow> nat \<Rightarrow> error + 'a" where
  "read m base i =
     (case live m base of
        Inl e \<Rightarrow> Inl e
      | Inr region \<Rightarrow>
          (if i < length region
           then (case region ! i of None \<Rightarrow> Inl uninitialized_read | Some x \<Rightarrow> Inr x)
           else Inl out_of_bounds))"

text \<open>
  What a \<^verbatim>\<open>const_reference\<close> argument refers to: an object outside the memory above,
  such as a local variable or a temporary, or the object in slot \<open>i\<close> of the allocation
  at \<open>base\<close>, as \<^verbatim>\<open>v[i]\<close> is.
\<close>

datatype 'a reference = Object 'a | Element addr nat

fun deref :: "'a memory \<Rightarrow> 'a reference \<Rightarrow> error + 'a" where
  "deref m (Object x) = Inr x"
| "deref m (Element base i) = read m base i"

text \<open>
  Memory for \<open>n\<close> objects that a provider has returned at \<open>ra\<close> is raw, and memory
  that goes back to the provider at \<open>p\<close> is released; the null pointer is neither.
\<close>

definition obtained :: "'a memory \<Rightarrow> addr \<Rightarrow> nat \<Rightarrow> 'a memory" where
  "obtained m ra n = (if ra = nullptr then m else m(ra \<mapsto> Live (replicate n None)))"

definition given_back :: "'a memory \<Rightarrow> addr \<Rightarrow> 'a memory" where
  "given_back m p =
     (if p = nullptr then m
      else (case m p of Some (Live region) \<Rightarrow> m(p \<mapsto> Released region) | _ \<Rightarrow> m))"

text \<open>
  The fields of \<^verbatim>\<open>vector<_Tp, polymorphic_allocator<_Tp>>\<close>. \<^verbatim>\<open>sizeof(_Tp)\<close> and
  \<^verbatim>\<open>alignof(_Tp)\<close> are the parameters \<open>sizeof_T\<close> and \<open>alignof_T\<close> of the member
  functions, which act on the vector, the memory and the state of the provider, and
  return \<open>Inl\<close> when an exception leaves them or when an access is undefined.
\<close>

record vector =
  alloc :: polymorphic_allocator
  ptr :: addr
  nAlloc :: size_t
  nStored :: size_t


text \<open>The objects \<^verbatim>\<open>begin()\<close> to \<^verbatim>\<open>end()\<close>.\<close>

definition elements :: "vector \<Rightarrow> 'a memory \<Rightarrow> 'a option list" where
  "elements v m =
     (case live m (ptr v) of Inl e \<Rightarrow> [] | Inr region \<Rightarrow> take (unat (nStored v)) region)"

text \<open>
  The loop of \<^verbatim>\<open>reserve\<close>: for each \<open>i < nStored\<close>, move-construct the old object \<open>i\<close> at
  \<^verbatim>\<open>ra + i\<close>, then destroy the old object.
\<close>

function move_loop :: "addr \<Rightarrow> addr \<Rightarrow> nat \<Rightarrow> nat \<Rightarrow> 'a memory \<Rightarrow> error + 'a memory" where
  "move_loop ra p i n m =
     (if i < n
      then (case read m p i of
              Inl e \<Rightarrow> Inl e
            | Inr x \<Rightarrow>
                (case construct m ra i x of
                   Inl e \<Rightarrow> Inl e
                 | Inr m' \<Rightarrow>
                     (case destroy m' p i of
                        Inl e \<Rightarrow> Inl e
                      | Inr m'' \<Rightarrow> move_loop ra p (i + 1) n m'')))
      else Inr m)"
  by pat_completeness auto
termination
  by (relation "measure (\<lambda>(ra, p, i, n, m). n - i)") auto

declare move_loop.simps [simp del]

text \<open>
  \<^verbatim>\<open>if (n <= this->nAlloc) { return ; }\<close>, then the new allocation, the loop,
  \<^verbatim>\<open>deallocate_object(ptr, nAlloc)\<close> and the two assignments.
\<close>

definition reserve ::
  "'s memory_resource \<Rightarrow> size_t \<Rightarrow> size_t \<Rightarrow> size_t \<Rightarrow> vector \<times> 'a memory \<times> 's
     \<Rightarrow> error + vector \<times> 'a memory \<times> 's" where
  "reserve r sizeof_T alignof_T n st =
     (case st of (v, m, s) \<Rightarrow>
        (if n \<le> nAlloc v then Inr (v, m, s)
         else (case allocate_object r sizeof_T alignof_T n s of
                 (Inl e, s') \<Rightarrow> Inl e
               | (Inr ra, s') \<Rightarrow>
                   (case move_loop ra (ptr v) 0 (unat (nStored v)) (obtained m ra (unat n)) of
                      Inl e \<Rightarrow> Inl e
                    | Inr m' \<Rightarrow>
                        Inr (v\<lparr>nAlloc := n, ptr := ra\<rparr>,
                             given_back m' (ptr v),
                             deallocate_object r sizeof_T alignof_T (ptr v) (nAlloc v) s')))))"

text \<open>
  \<^verbatim>\<open>if (nAlloc == nStored) { reserve(nAlloc == 0uz ? 4uz : 2uz * nAlloc); }\<close>
  \<^verbatim>\<open>alloc.construct(ptr + nStored, value); ++nStored;\<close>
  The argument \<open>value\<close> is a reference: it is read in \<open>construct\<close>, after \<open>reserve\<close>.
\<close>

definition push_back ::
  "'s memory_resource \<Rightarrow> size_t \<Rightarrow> size_t \<Rightarrow> 'a reference \<Rightarrow> vector \<times> 'a memory \<times> 's
     \<Rightarrow> error + vector \<times> 'a memory \<times> 's" where
  "push_back r sizeof_T alignof_T val st =
     (case (if nAlloc (fst st) = nStored (fst st)
            then reserve r sizeof_T alignof_T
                   (if nAlloc (fst st) = 0 then 4 else 2 * nAlloc (fst st)) st
            else Inr st) of
        Inl e \<Rightarrow> Inl e
      | Inr (v, m, s) \<Rightarrow>
          (case deref m val of
             Inl e \<Rightarrow> Inl e
           | Inr x \<Rightarrow>
               (case construct m (ptr v) (unat (nStored v)) x of
                  Inl e \<Rightarrow> Inl e
                | Inr m' \<Rightarrow> Inr (v\<lparr>nStored := nStored v + 1\<rparr>, m', s))))"



text \<open>
  What the member functions keep true: at most \<open>nAlloc\<close> objects are stored; a null
  \<open>ptr\<close> goes with no capacity; any other \<open>ptr\<close> is a live allocation of \<open>nAlloc\<close> slots,
  the first \<open>nStored\<close> of which hold objects.
\<close>

definition vector_ok :: "vector \<Rightarrow> 'a memory \<Rightarrow> bool" where
  "vector_ok v m =
     (nStored v \<le> nAlloc v
      \<and> (if ptr v = nullptr then nAlloc v = 0
         else (case m (ptr v) of
                 Some (Live region) \<Rightarrow>
                   length region = unat (nAlloc v)
                   \<and> None \<notin> set (take (unat (nStored v)) region)
               | _ \<Rightarrow> False)))"

subsection \<open>Alignment\<close>

text \<open>An alignment as C++ knows it: a power of two that fits in \<open>size_t\<close>.\<close>

definition is_pow2 :: "size_t \<Rightarrow> bool" where
  "is_pow2 al = (\<exists>k \<in> {0..<64}. al = 2 ^ k)"

text \<open>
  What the manuals of the platform's primitives promise, with the null pointer counting
  as aligned: \<open>_aligned_malloc\<close> and \<open>memalign\<close> return a multiple of a power-of-two
  alignment, \<open>malloc\<close> a multiple of \<open>alignof(max_align_t)\<close>, and \<open>posix_memalign\<close>, when
  it returns 0, has stored a multiple of the alignment, which it wants to be a power of
  two and at least \<open>sizeof(void *)\<close>.
\<close>

definition platform_honours_alignment :: "'h platform \<Rightarrow> bool" where
  "platform_honours_alignment pf =
     (\<forall>sz al h. is_pow2 al \<longrightarrow>
        unat al dvd fst (aligned_malloc pf sz al h)
        \<and> unat al dvd fst (memalign pf al sz h)
        \<and> unat alignof_max_align_t dvd fst (malloc pf sz h)
        \<and> (sizeof_void_ptr \<le> al \<longrightarrow> fst (fst (posix_memalign pf al sz h)) = 0 \<longrightarrow>
             unat al dvd snd (fst (posix_memalign pf al sz h))))"

text \<open>A provider whose \<open>do_allocate\<close> returns multiples of every power-of-two alignment.\<close>

definition honours_alignment :: "'s memory_resource \<Rightarrow> bool" where
  "honours_alignment r =
     (\<forall>bytes al s p. is_pow2 al \<longrightarrow> fst (do_allocate r bytes al s) = Inr p \<longrightarrow> unat al dvd p)"

subsection \<open>A provider with an equality of its own\<close>

text \<open>
  A user-defined provider may override \<^verbatim>\<open>do_is_equal\<close> as it likes. This one, which
  never has memory to give, takes every provider for its equal.
\<close>

definition indifferent_resource :: "unit memory_resource" where
  "indifferent_resource =
     \<lparr>do_allocate = (\<lambda>bytes alignment s. (Inr nullptr, s)),
      do_deallocate = (\<lambda>p bytes alignment s. s),
      do_is_equal = (\<lambda>this other. True)\<rparr>"

subsection \<open>Platforms for the examples\<close>

text \<open>
  Two platforms on which the examples below run. On \<open>sample_platform\<close> the heap only
  grows: its state is the first free address, every request is served at the next
  address that has the requested alignment (16 for \<open>malloc\<close>), and freeing does nothing.
  On \<open>exhausted_platform\<close> no memory is left: every request returns the null pointer
  (\<open>posix_memalign\<close> returns \<open>ENOMEM\<close>, 12).
\<close>

definition sample_platform :: "nat platform" where
  "sample_platform =
     \<lparr>aligned_malloc = (\<lambda>sz al h. (round_up h (unat al), round_up h (unat al) + unat sz)),
      malloc = (\<lambda>sz h. (round_up h 16, round_up h 16 + unat sz)),
      posix_memalign = (\<lambda>al sz h. ((0, round_up h (unat al)), round_up h (unat al) + unat sz)),
      memalign = (\<lambda>al sz h. (round_up h (unat al), round_up h (unat al) + unat sz)),
      aligned_free = (\<lambda>p h. h),
      free = (\<lambda>p h. h)\<rparr>"

definition exhausted_platform :: "nat platform" where
  "exhausted_platform =
     \<lparr>aligned_malloc = (\<lambda>sz al h. (nullptr, h)),
      malloc = (\<lambda>sz h. (nullptr, h)),
      posix_memalign = (\<lambda>al sz h. ((12, nullptr), h)),
      memalign = (\<lambda>al sz h. (nullptr, h)),
      aligned_free = (\<lambda>p h. h),
      free = (\<lambda>p h. h)\<rparr>"

section \<open>Properties\<close>

subsection \<open>The non-virtual interface\<close>

text \<open>
  C2. For every provider, whatever its virtual functions are, \<open>allocate\<close> with
  \<open>bytes = 0\<close> returns the null pointer and \<open>deallocate\<close> of the null pointer does nothing;
  neither reaches \<open>do_allocate\<close> or \<open>do_deallocate\<close>: the state of the provider is
  untouched, and an observing provider has recorded no call.
\<close>

theorem allocate_zero_deallocate_null:
  "allocate r 0 alignment s = (Inr nullptr, s)
   \<and> deallocate r nullptr bytes alignment s = s
   \<and> allocate (recording r) 0 alignment (s, evs) = (Inr nullptr, (s, evs))
   \<and> deallocate (recording r) nullptr bytes alignment (s, evs) = (s, evs)"
  by (simp add: allocate_def deallocate_def)

subsection \<open>Deallocation through the arena\<close>

lemma deallocate_recording:
  "deallocate (recording r) p bytes alignment (s, evs) =
     (if p = nullptr then (s, evs)
      else (do_deallocate r p bytes alignment s, evs @ [DoDeallocate p bytes alignment]))"
  by (simp add: deallocate_def recording_def)

text \<open>
  C1. In the arena, a deallocate request of at most \<open>block_size\<close> bytes does nothing: the
  arena and the upstream provider keep their state and an observing upstream provider
  records no call. A request of more than \<open>block_size\<close> bytes is passed to the upstream
  provider's \<open>deallocate\<close>, whose \<open>do_deallocate\<close> is then called once. The outcome is the
  same whatever the block list, the current block and the offset are: only \<open>bytes\<close> and
  \<open>block_size\<close> decide.
\<close>

theorem monotonic_do_deallocate_threshold:
  "(bytes \<le> block_size a \<longrightarrow>
      monotonic_do_deallocate up p bytes alignment (a, u) = (a, u)
      \<and> monotonic_do_deallocate (recording up) p bytes alignment (a, (u, evs)) = (a, (u, evs)))
   \<and> (block_size a < bytes \<longrightarrow>
      monotonic_do_deallocate up p bytes alignment (a, u)
        = (a, deallocate up p bytes alignof_max_align_t u)
      \<and> (p \<noteq> nullptr \<longrightarrow>
          monotonic_do_deallocate (recording up) p bytes alignment (a, (u, evs))
            = (a, (do_deallocate up p bytes alignof_max_align_t u,
                   evs @ [DoDeallocate p bytes alignof_max_align_t]))))
   \<and> snd (monotonic_do_deallocate up p bytes alignment
             (a\<lparr>current := c, current_pos := cp, block_list := bl\<rparr>, u))
       = snd (monotonic_do_deallocate up p bytes alignment (a, u))"
  by (auto simp add: monotonic_do_deallocate_def deallocate_recording)

theorem monotonic_do_deallocate_threshold_witness:
  "monotonic_do_deallocate (recording (NewDeleteResource HAVE_NEITHER sample_platform)) 4096 100 8
      (monotonic_init 256 7, (5000, [])) = (monotonic_init 256 7, (5000, []))
   \<and> monotonic_do_deallocate (recording (NewDeleteResource HAVE_NEITHER sample_platform)) 4096 300 8
      (monotonic_init 256 7, (5000, []))
     = (monotonic_init 256 7, (5000, [DoDeallocate 4096 300 16]))"
  using monotonic_do_deallocate_threshold
          [where bytes = 100 and a = "monotonic_init 256 7" and p = 4096 and alignment = 8
             and up = "NewDeleteResource HAVE_NEITHER sample_platform" and u = 5000
             and evs = "[]"]
        monotonic_do_deallocate_threshold
          [where bytes = 300 and a = "monotonic_init 256 7" and p = 4096 and alignment = 8
             and up = "NewDeleteResource HAVE_NEITHER sample_platform" and u = 5000
             and evs = "[]"]
  by (simp add: monotonic_init_def nullptr_def alignof_max_align_t_def NewDeleteResource_def
        NewDeleteResource_do_deallocate_def sample_platform_def)

text \<open>
  C9. A large deallocation reaches the upstream provider with the default alignment
  \<open>alignof(max_align_t)\<close>. The alignment given to the arena's \<open>deallocate\<close> has no effect
  on the outcome, and the call recorded upstream carries the default alignment.
\<close>

theorem monotonic_deallocate_alignment_discarded:
  "deallocate (monotonic up) p bytes alignment st = deallocate (monotonic up) p bytes alignment' st
   \<and> (block_size a < bytes \<longrightarrow> p \<noteq> nullptr \<longrightarrow>
        deallocate (monotonic (recording up)) p bytes alignment (a, (u, evs))
          = (a, (do_deallocate up p bytes alignof_max_align_t u,
                 evs @ [DoDeallocate p bytes alignof_max_align_t])))"
  by (cases st)
     (simp add: deallocate_def monotonic_def monotonic_do_deallocate_def recording_def)

theorem monotonic_deallocate_alignment_discarded_witness:
  "deallocate (monotonic (recording (NewDeleteResource HAVE_NEITHER sample_platform))) 4096 300 64
      (monotonic_init 256 7, (5000, []))
     = (monotonic_init 256 7, (5000, [DoDeallocate 4096 300 16]))"
  using monotonic_deallocate_alignment_discarded
          [where bytes = 300 and a = "monotonic_init 256 7" and p = 4096 and alignment = 64
             and up = "NewDeleteResource HAVE_NEITHER sample_platform" and u = 5000
             and evs = "[]"]
  by (simp add: monotonic_init_def nullptr_def alignof_max_align_t_def NewDeleteResource_def
        NewDeleteResource_do_deallocate_def sample_platform_def)

subsection \<open>Release\<close>

lemma release_loop_recording:
  "\<forall>b \<in> set bl. blk_addr b \<noteq> nullptr \<Longrightarrow>
   release_loop (recording up) bl (u, evs)
     = (release_loop up bl u,
        evs @ map (\<lambda>b. DoDeallocate (blk_addr b) (sizeof_block + blk_size b) alignof_max_align_t) bl)"
proof (induction bl arbitrary: u evs)
  case Nil
  show ?case by simp
next
  case (Cons b bl)
  have "free_block (recording up) b (u, evs)
          = (free_block up b u,
             evs @ [DoDeallocate (blk_addr b) (sizeof_block + blk_size b) alignof_max_align_t])"
    using Cons.prems by (simp add: free_block_def deallocate_recording) (simp add: deallocate_def)
  then show ?case using Cons by simp
qed

lemma release_loop_foldl:
  "release_loop up bl u = foldl (\<lambda>u b. free_block up b u) u bl"
  by (induction bl arbitrary: u) simp_all

text \<open>
  C4. \<open>release\<close> goes through the block list from its head to its end and gives each
  block back to the upstream provider as one allocation of \<open>sizeof(block) + size\<close> bytes,
  then empties the list and clears the current block. Upstream, each block of the list is
  the subject of exactly one \<open>do_deallocate\<close> call, in list order. A second \<open>release\<close>
  changes nothing and reaches the upstream provider with no call.
\<close>

theorem release_returns_every_block_once:
  "release up (a, u)
     = (a\<lparr>block_list := [], current := None\<rparr>,
        foldl (\<lambda>u b. deallocate up (blk_addr b) (sizeof_block + blk_size b) alignof_max_align_t u)
          u (block_list a))
   \<and> ((\<forall>b \<in> set (block_list a). blk_addr b \<noteq> nullptr) \<longrightarrow>
        snd (snd (release (recording up) (a, (u, evs))))
          = evs @ map (\<lambda>b. DoDeallocate (blk_addr b) (sizeof_block + blk_size b)
                              alignof_max_align_t) (block_list a))
   \<and> release up (release up (a, u)) = release up (a, u)
   \<and> release (recording up) (release (recording up) (a, (u, evs)))
       = release (recording up) (a, (u, evs))"
proof -
  have "release_loop up (block_list a) u
          = foldl (\<lambda>u b. deallocate up (blk_addr b) (sizeof_block + blk_size b)
                            alignof_max_align_t u) u (block_list a)"
    unfolding release_loop_foldl free_block_def ..
  moreover have "(\<forall>b \<in> set (block_list a). blk_addr b \<noteq> nullptr) \<longrightarrow>
        snd (snd (release (recording up) (a, (u, evs))))
          = evs @ map (\<lambda>b. DoDeallocate (blk_addr b) (sizeof_block + blk_size b)
                              alignof_max_align_t) (block_list a)"
    by (simp add: release_def release_loop_recording)
  ultimately show ?thesis by (simp add: release_def)
qed

theorem release_returns_every_block_once_witness:
  "snd (snd (release (recording (NewDeleteResource HAVE_NEITHER sample_platform))
       (\<lparr>upstream = 7, block_size = 256,
         current = Some \<lparr>blk_addr = 2048, blk_ptr = 2072, blk_size = 512\<rparr>,
         current_pos = 40,
         block_list = [\<lparr>blk_addr = 2048, blk_ptr = 2072, blk_size = 512\<rparr>,
                       \<lparr>blk_addr = 1024, blk_ptr = 1048, blk_size = 256\<rparr>]\<rparr>, (5000, []))))
     = [DoDeallocate 2048 536 16, DoDeallocate 1024 280 16]"
  using release_returns_every_block_once
          [where up = "NewDeleteResource HAVE_NEITHER sample_platform" and u = 5000 and evs = "[]"
             and a = "\<lparr>upstream = 7, block_size = 256,
               current = Some \<lparr>blk_addr = 2048, blk_ptr = 2072, blk_size = 512\<rparr>,
               current_pos = 40,
               block_list = [\<lparr>blk_addr = 2048, blk_ptr = 2072, blk_size = 512\<rparr>,
                             \<lparr>blk_addr = 1024, blk_ptr = 1048, blk_size = 256\<rparr>]\<rparr>"]
  by (simp add: nullptr_def sizeof_block_def alignof_max_align_t_def)

text \<open>
  C10. \<open>release\<close> writes the fields \<open>block_list\<close> and \<open>current\<close> and no other: the upstream
  pointer, \<open>block_size\<close> and the offset \<open>current_pos\<close> keep their values, so the offset is
  not set back to zero.
\<close>

theorem release_frame:
  "fst (release up (a, u)) = a\<lparr>block_list := [], current := None\<rparr>
   \<and> upstream (fst (release up (a, u))) = upstream a
   \<and> block_size (fst (release up (a, u))) = block_size a
   \<and> current_pos (fst (release up (a, u))) = current_pos a"
  by (simp add: release_def)

subsection \<open>Equality\<close>

text \<open>
  C6. For the system provider and for the arena, \<open>is_equal\<close> holds exactly between a
  provider and itself. Two allocator handles are equal exactly when they hold the same
  provider pointer, which for these two providers is exactly when the providers they
  refer to are equal.
\<close>

theorem equality_is_identity:
  "is_equal (NewDeleteResource b pf) p q = (p = q)
   \<and> is_equal (monotonic up) p q = (p = q)
   \<and> memory_resource_eq (NewDeleteResource b pf) p q = (p = q)
   \<and> memory_resource_eq (monotonic up) p q = (p = q)
   \<and> resource (polymorphic_allocator_of p) = p
   \<and> polymorphic_allocator_eq x y = (memoryResource x = memoryResource y)
   \<and> polymorphic_allocator_eq (polymorphic_allocator_of p) (polymorphic_allocator_of q) = (p = q)
   \<and> polymorphic_allocator_eq (polymorphic_allocator_of p) (polymorphic_allocator_of q)
       = is_equal (NewDeleteResource b pf) p q
   \<and> polymorphic_allocator_eq (polymorphic_allocator_of p) (polymorphic_allocator_of q)
       = is_equal (monotonic up) p q"
  by (simp add: is_equal_def memory_resource_eq_def NewDeleteResource_def monotonic_def
        NewDeleteResource_do_is_equal_def monotonic_do_is_equal_def polymorphic_allocator_eq_def
        polymorphic_allocator_of_def resource_def)

text \<open>
  For every provider this does not hold: a user-defined provider decides its own
  equality. Two instances of \<open>indifferent_resource\<close>, at 7 and at 9, are equal, and the
  handles on them are not.
\<close>

theorem equality_is_identity_counterexample:
  "is_equal indifferent_resource 7 9
   \<and> (7 :: addr) \<noteq> 9
   \<and> \<not> polymorphic_allocator_eq (polymorphic_allocator_of 7) (polymorphic_allocator_of 9)"
  by (simp add: is_equal_def indifferent_resource_def polymorphic_allocator_eq_def
        polymorphic_allocator_of_def resource_def)

subsection \<open>The allocator handle\<close>

lemma size_t_max_div_less:
  assumes "sz \<noteq> (0::size_t)"
  shows "(size_t_max div sz < n) = (2 ^ 64 \<le> unat n * unat sz)"
proof -
  have s: "0 < unat sz" using assms by (simp add: unat_gt_0)
  have m: "unat size_t_max = 2 ^ 64 - 1"
    by (simp add: size_t_max_def unsigned_minus_1_eq_mask mask_eq_exp_minus_1)
  have "(size_t_max div sz < n) = (unat (size_t_max div sz) < unat n)"
    by (simp add: word_less_nat_alt)
  also have "\<dots> = ((2 ^ 64 - 1) div unat sz < unat n)"
    by (simp add: unat_div m)
  also have "\<dots> = (2 ^ 64 - 1 < unat n * unat sz)"
    using s by (simp add: div_less_iff_less_mult)
  also have "\<dots> = (2 ^ 64 \<le> unat n * unat sz)"
    by auto
  finally show ?thesis .
qed

lemma unat_mult_no_overflow:
  "unat n * unat sz < 2 ^ 64 \<Longrightarrow> unat (n * sz :: size_t) = unat n * unat sz"
  by (simp add: unat_word_ariths)

text \<open>
  C5. For an object type of size \<open>sizeof_U > 0\<close>: when \<open>n * sizeof_U\<close> does not fit in
  \<open>size_t\<close>, \<open>allocate_object\<close> throws \<open>bad_array_new_length\<close> with the provider untouched
  (an observing provider records no call); when it fits, \<open>allocate_object\<close> is
  \<open>allocate_bytes\<close> of exactly \<open>n * sizeof_U\<close> bytes at \<open>alignof_U\<close>. The overflow error is
  neither a provider's exception nor a null result.
\<close>

theorem allocate_object_overflow:
  assumes "sizeof_U \<noteq> 0"
  shows "(2 ^ 64 \<le> unat n * unat sizeof_U \<longrightarrow>
            allocate_object r sizeof_U alignof_U n s = (Inl bad_array_new_length, s)
            \<and> allocate_object (recording r) sizeof_U alignof_U n (s, evs)
                = (Inl bad_array_new_length, (s, evs)))
         \<and> (unat n * unat sizeof_U < 2 ^ 64 \<longrightarrow>
            allocate_object r sizeof_U alignof_U n s
              = allocate_bytes r (n * sizeof_U) alignof_U s
            \<and> unat (n * sizeof_U) = unat n * unat sizeof_U)
         \<and> bad_array_new_length \<noteq> resource_exception k
         \<and> (Inl bad_array_new_length :: error + addr) \<noteq> Inr nullptr"
  using assms
  by (simp add: allocate_object_def size_t_max_div_less unat_mult_no_overflow not_le)

theorem allocate_object_overflow_witness:
  "allocate_object (recording (NewDeleteResource HAVE_NEITHER sample_platform)) 4 4
       (2 ^ 62) (16, [])
     = (Inl bad_array_new_length, (16, []))
   \<and> allocate_object (recording (NewDeleteResource HAVE_NEITHER sample_platform)) 4 4 10 (16, [])
     = (Inr 16, (56, [DoAllocate 40 4]))"
  using allocate_object_overflow
          [where sizeof_U = 4 and alignof_U = 4 and n = "2 ^ 62" and evs = "[]" and s = 16
             and r = "NewDeleteResource HAVE_NEITHER sample_platform"]
        allocate_object_overflow
          [where sizeof_U = 4 and alignof_U = 4 and n = 10 and s = "(16, [])"
             and r = "recording (NewDeleteResource HAVE_NEITHER sample_platform)"]
  by (simp add: allocate_bytes_def allocate_def recording_def NewDeleteResource_def
        NewDeleteResource_do_allocate_def sample_platform_def round_up_def)

subsection \<open>Alignment of the addresses returned\<close>

lemma unat_2p:
  assumes "k < 64"
  shows "unat (2 ^ k :: size_t) = 2 ^ k"
proof -
  have e: "(2 ^ k :: size_t) = of_nat (2 ^ k)" by simp
  have "unat (of_nat (2 ^ k) :: size_t) = 2 ^ k mod 2 ^ LENGTH(64)" by (rule unat_of_nat)
  moreover have "(2::nat) ^ k < 2 ^ 64"
    using assms by (rule_tac power_strict_increasing) simp_all
  ultimately show ?thesis unfolding e by simp
qed

lemma is_pow2_unat: "is_pow2 al \<Longrightarrow> \<exists>k<64. unat al = 2 ^ k"
  by (auto simp add: is_pow2_def unat_2p)

lemma is_pow2_dvd:
  assumes "is_pow2 al" and "unat al \<le> 2 ^ m"
  shows "unat al dvd 2 ^ m"
proof -
  obtain k where k: "unat al = 2 ^ k" using is_pow2_unat [OF assms(1)] by blast
  have "k \<le> m" using assms(2) k by simp
  then show ?thesis using k by (simp add: le_imp_power_dvd)
qed

lemma is_pow2_dvd_16: "is_pow2 al \<Longrightarrow> al < sizeof_void_ptr \<Longrightarrow> unat al dvd unat alignof_max_align_t"
  using is_pow2_dvd [of al 4]
  by (simp add: sizeof_void_ptr_def alignof_max_align_t_def word_less_nat_alt)

lemma NewDeleteResource_honours_alignment:
  assumes "platform_honours_alignment pf"
  shows "honours_alignment (NewDeleteResource b pf)"
  unfolding honours_alignment_def
proof (intro allI impI)
  fix bytes al and h :: 'a and p
  assume al: "is_pow2 al"
    and r: "fst (do_allocate (NewDeleteResource b pf) bytes al h) = Inr p"
  have c: "unat al dvd fst (aligned_malloc pf bytes al h)"
    "unat al dvd fst (memalign pf al bytes h)"
    "unat alignof_max_align_t dvd fst (malloc pf bytes h)"
    "sizeof_void_ptr \<le> al \<Longrightarrow> fst (fst (posix_memalign pf al bytes h)) = 0 \<Longrightarrow>
       unat al dvd snd (fst (posix_memalign pf al bytes h))"
    using assms al unfolding platform_honours_alignment_def by blast+
  show "unat al dvd p"
  proof (cases b)
    case HAVE_ALIGNED_MALLOC
    then show ?thesis using r c(1)
      by (simp add: NewDeleteResource_def NewDeleteResource_do_allocate_def)
  next
    case HAVE_POSIX_MEMALIGN
    show ?thesis
    proof (cases "al < sizeof_void_ptr")
      case True
      then have "p = fst (malloc pf bytes h)" using r HAVE_POSIX_MEMALIGN
        by (simp add: NewDeleteResource_def NewDeleteResource_do_allocate_def)
      then show ?thesis using c(3) is_pow2_dvd_16 [OF al True] by (metis dvd_trans)
    next
      case False
      then show ?thesis using r HAVE_POSIX_MEMALIGN c(4)
        by (auto simp add: NewDeleteResource_def NewDeleteResource_do_allocate_def nullptr_def
              not_less split: if_splits)
    qed
  next
    case HAVE_NEITHER
    then show ?thesis using r c(2)
      by (simp add: NewDeleteResource_def NewDeleteResource_do_allocate_def)
  qed
qed

lemma dvd_round_up: "a dvd round_up n a"
  by (simp add: round_up_def)

lemma carve_aligned:
  assumes "carve a bytes alignment = (Inr p, a')"
  shows "\<exists>blk. current a' = Some blk \<and> current a = Some blk \<and> blk_ptr blk \<le> p
           \<and> unat alignment dvd p - blk_ptr blk"
  using assms by (auto simp add: carve_def dvd_round_up split: option.splits)

lemma allocate_honours:
  assumes "honours_alignment r" and "is_pow2 al" and "fst (allocate r bytes al s) = Inr p"
  shows "unat al dvd p"
proof (cases "bytes = 0")
  case True
  then show ?thesis using assms(3) by (simp add: allocate_def nullptr_def)
next
  case False
  then have "fst (do_allocate r bytes al s) = Inr p" using assms(3) by (simp add: allocate_def)
  then show ?thesis using assms(1,2) unfolding honours_alignment_def by blast
qed

lemma monotonic_do_allocate_cases:
  "monotonic_do_allocate up bytes al (a, u) = (Inr p, (a', u')) \<Longrightarrow>
     (block_size a < bytes \<and> fst (allocate up bytes al u) = Inr p \<and> a' = a)
   \<or> (bytes \<le> block_size a \<and> fits a bytes al \<and> carve a bytes al = (Inr p, a'))
   \<or> (bytes \<le> block_size a \<and> \<not> fits a bytes al \<and>
        (\<exists>b a1. allocate_block up (max bytes (block_size a)) (a, u) = (Inr b, (a1, u'))
          \<and> carve (a1\<lparr>current := Some b, current_pos := 0, block_size := 2 * block_size a1\<rparr>)
                bytes al = (Inr p, a')))"
  by (auto simp add: monotonic_do_allocate_def not_less prod_eq_iff
        split: if_splits prod.splits sum.splits)

lemma monotonic_allocate_offset:
  assumes r: "allocate (monotonic up) bytes al (a, u) = (Inr p, (a', u'))"
    and "bytes \<noteq> 0" and "bytes \<le> block_size a"
  shows "\<exists>blk. current a' = Some blk \<and> blk_ptr blk \<le> p \<and> unat al dvd p - blk_ptr blk"
proof -
  have d: "monotonic_do_allocate up bytes al (a, u) = (Inr p, (a', u'))"
    using r assms(2) by (simp add: allocate_def monotonic_def)
  from monotonic_do_allocate_cases [OF d] show ?thesis
    using assms(3) carve_aligned by (elim disjE conjE exE) (simp, blast, blast)
qed

lemma sample_platform_honours_alignment: "platform_honours_alignment sample_platform"
  by (simp add: platform_honours_alignment_def sample_platform_def dvd_round_up
        alignof_max_align_t_def)

text \<open>
  On a platform that keeps the promises of its manual, the system provider returns the
  null pointer or a multiple of the alignment, for every power-of-two alignment.
\<close>

lemma NewDeleteResource_allocate_aligned:
  assumes "platform_honours_alignment pf" and "is_pow2 alignment"
    and "allocate (NewDeleteResource b pf) bytes alignment h = (Inr p, h')"
  shows "p mod unat alignment = 0"
proof -
  have "unat alignment dvd p"
    using allocate_honours [OF NewDeleteResource_honours_alignment [OF assms(1)] assms(2),
        of b bytes h p] assms(3) by simp
  then show ?thesis by (simp add: dvd_eq_mod_eq_0)
qed

text \<open>
  So does the arena for a request above its threshold, which it passes on with the
  alignment, over an upstream provider that honours alignments.
\<close>

lemma monotonic_standalone_aligned:
  assumes "honours_alignment up" and "is_pow2 alignment" and "block_size a < bytes"
    and "allocate (monotonic up) bytes alignment (a, u) = (Inr p, st')"
  shows "p mod unat alignment = 0"
proof -
  have "bytes \<noteq> 0" using assms(3) by (metis word_not_simps(1))
  then have "allocate (monotonic up) bytes alignment (a, u)
               = monotonic_do_allocate up bytes alignment (a, u)"
    by (simp add: allocate_def monotonic_def)
  then have "fst (allocate up bytes alignment u) = Inr p"
    using assms(3,4) by (simp add: monotonic_do_allocate_def)
  then have "unat alignment dvd p" using allocate_honours [OF assms(1,2)] by blast
  then show ?thesis by (simp add: dvd_eq_mod_eq_0)
qed


subsection \<open>Failure of the upstream provider\<close>

lemma allocate_block_exception:
  "allocate up (sizeof_block + sz) alignof_block u = (Inl e, u') \<Longrightarrow>
   allocate_block up sz (a, u) = (Inl e, (a, u'))"
  by (simp add: allocate_block_def)

lemma monotonic_standalone:
  "block_size a < bytes \<Longrightarrow>
   monotonic_do_allocate up bytes alignment (a, u)
     = (fst (allocate up bytes alignment u), (a, snd (allocate up bytes alignment u)))"
  by (simp add: monotonic_do_allocate_def)

lemma monotonic_allocate_exception:
  assumes "bytes \<noteq> 0" and "bytes \<le> block_size a" and "\<not> fits a bytes alignment"
    and "allocate up (sizeof_block + max bytes (block_size a)) alignof_block u = (Inl e, u')"
  shows "allocate (monotonic up) bytes alignment (a, u) = (Inl e, (a, u'))"
proof -
  have "allocate (monotonic up) bytes alignment (a, u)
          = monotonic_do_allocate up bytes alignment (a, u)"
    using assms(1) by (simp add: allocate_def monotonic_def)
  moreover have "\<not> block_size a < bytes" using assms(2) by simp
  ultimately show ?thesis
    using assms(3) allocate_block_exception [OF assms(4), of a]
    by (simp add: monotonic_do_allocate_def)
qed

text \<open>
  C8. An exception of the upstream provider passes through \<open>allocate_block\<close> as it is
  (the lemmas above). The system provider, though, reports failure by returning the null
  pointer, and \<open>allocate_block\<close> writes the block header through the pointer it got
  without a test: with no memory left, the upstream \<open>allocate\<close> returns null and the
  arena dereferences it instead of handing the failure to its caller.
\<close>

theorem allocate_block_null_upstream:
  "allocate (NewDeleteResource HAVE_NEITHER exhausted_platform) (sizeof_block + 256)
     alignof_block 16 = (Inr nullptr, 16)
   \<and> allocate_block (NewDeleteResource HAVE_NEITHER exhausted_platform) 256
       (monotonic_init 256 7, 16) = (Inl null_dereference, (monotonic_init 256 7, 16))"
  by code_simp

text \<open>The same through the arena's \<open>allocate\<close>, with \<open>do_allocate\<close> as the spec describes it.\<close>

lemma monotonic_allocate_null_upstream:
  "allocate (monotonic (NewDeleteResource HAVE_NEITHER exhausted_platform)) 64 8
     (monotonic_init 256 7, 16) = (Inl null_dereference, (monotonic_init 256 7, 16))"
  by code_simp

subsection \<open>Growth of the vector\<close>

lemma move_loop_gen:
  assumes "ra \<noteq> nullptr" and "p \<noteq> nullptr" and "ra \<noteq> p"
    and "m ra = Some (Live new)" and "m p = Some (Live old)"
    and "n \<le> length old" and "n \<le> length new" and "i \<le> n"
    and "\<forall>j. i \<le> j \<and> j < n \<longrightarrow> old ! j \<noteq> None"
  shows "move_loop ra p i n m
           = Inr (m(ra \<mapsto> Live (take i new @ take (n - i) (drop i old) @ drop n new),
                    p \<mapsto> Live (take i old @ replicate (n - i) None @ drop n old)))"
  using assms
proof (induction "n - i" arbitrary: i m old new)
  case 0
  then have "i = n" by simp
  moreover have "m(ra \<mapsto> Live new, p \<mapsto> Live old) = m"
    using "0.prems"(4,5) by (auto simp add: fun_eq_iff)
  moreover have "move_loop ra p n n m = Inr m" by (simp add: move_loop.simps [of ra p n n])
  ultimately show ?case by (simp del: fun_upd_apply)
next
  case (Suc k)
  then have lt: "i < n" "i < length old" "i < length new" by simp_all
  obtain x where x: "old ! i = Some x" using Suc.prems(9) lt(1) by (cases "old ! i") auto
  have k: "k = n - (i + 1)" using Suc.hyps(2) by simp
  let ?m1 = "m(ra \<mapsto> Live (new[i := Some x]))"
  let ?m2 = "?m1(p \<mapsto> Live (old[i := None]))"
  have r: "read m p i = Inr x"
    using Suc.prems(2,5) lt(2) x by (simp add: read_def live_def)
  have c: "construct m ra i x = Inr ?m1"
    using Suc.prems(1,4) lt(3) by (simp add: construct_def live_def)
  have d: "destroy ?m1 p i = Inr ?m2"
    using Suc.prems(2,3,5) lt(2) by (simp add: destroy_def live_def)
  have step: "move_loop ra p i n m = move_loop ra p (i + 1) n ?m2"
    using lt(1) r c d by (subst move_loop.simps) simp
  have ih: "move_loop ra p (i + 1) n ?m2
      = Inr (?m2(ra \<mapsto> Live (take (i + 1) (new[i := Some x])
                              @ take (n - (i + 1)) (drop (i + 1) (old[i := None]))
                              @ drop n (new[i := Some x])),
                 p \<mapsto> Live (take (i + 1) (old[i := None]) @ replicate (n - (i + 1)) None
                              @ drop n (old[i := None]))))"
    using Suc.prems lt by (intro Suc.hyps(1) [OF k]) simp_all
  have o: "take (i + 1) (old[i := None]) @ replicate (n - (i + 1)) None @ drop n (old[i := None])
         = take i old @ replicate (n - i) None @ drop n old"
  proof -
    have "replicate (n - i) None = (None :: 'a option) # replicate (n - (i + 1)) None"
      using lt(1) by (cases "n - i") simp_all
    then show ?thesis using lt by (simp add: take_Suc_conv_app_nth)
  qed
  have nw: "take (i + 1) (new[i := Some x]) @ take (n - (i + 1)) (drop (i + 1) (old[i := None]))
               @ drop n (new[i := Some x])
         = take i new @ take (n - i) (drop i old) @ drop n new"
  proof -
    have e: "n - i = Suc (n - (i + 1))" using lt(1) by simp
    have "take (n - i) (drop i old) = Some x # take (n - (i + 1)) (drop (i + 1) old)"
      unfolding e using lt(2) x by (simp add: Cons_nth_drop_Suc [symmetric])
    then show ?thesis using lt by (simp add: take_Suc_conv_app_nth)
  qed
  have "?m2(ra \<mapsto> Live (take i new @ take (n - i) (drop i old) @ drop n new),
            p \<mapsto> Live (take i old @ replicate (n - i) None @ drop n old))
        = m(ra \<mapsto> Live (take i new @ take (n - i) (drop i old) @ drop n new),
            p \<mapsto> Live (take i old @ replicate (n - i) None @ drop n old))"
    by (auto simp add: fun_eq_iff)
  then show ?case unfolding step ih o nw by simp
qed

lemma reserve_full:
  assumes ok: "vector_ok v m" and full: "nStored v = nAlloc v" and n: "nAlloc v < n"
    and a: "allocate_object r sizeof_T alignof_T n s = (Inr ra, s')"
    and ra: "ra \<noteq> nullptr" and d: "ra \<noteq> ptr v"
  shows "\<exists>m'. reserve r sizeof_T alignof_T n (v, m, s)
                 = Inr (v\<lparr>nAlloc := n, ptr := ra\<rparr>, m',
                        deallocate_object r sizeof_T alignof_T (ptr v) (nAlloc v) s')
               \<and> m' ra = Some (Live (elements v m @ replicate (unat n - unat (nStored v)) None))
               \<and> (ptr v \<noteq> nullptr \<longrightarrow>
                    m' (ptr v) = Some (Released (replicate (unat (nAlloc v)) None)))
               \<and> (\<forall>q. q \<noteq> ra \<longrightarrow> q \<noteq> ptr v \<longrightarrow> m' q = m q)"
proof -
  have nn: "\<not> n \<le> nAlloc v" using n by simp
  have kn: "unat (nStored v) < unat n" using n full by (simp add: word_less_nat_alt)
  let ?k = "unat (nStored v)"
  let ?m1 = "m(ra \<mapsto> Live (replicate (unat n) None))"
  have ob: "obtained m ra (unat n) = ?m1" using ra by (simp add: obtained_def)
  show ?thesis
  proof (cases "ptr v = nullptr")
    case True
    then have z: "nStored v = 0" using ok full by (simp add: vector_ok_def)
    have el: "elements v m = []" using True by (simp add: elements_def live_def)
    have ml: "move_loop ra (ptr v) 0 (unat (nStored v)) ?m1 = Inr ?m1"
      using z by (simp add: move_loop.simps [of ra "ptr v" 0 0])
    have gb: "given_back ?m1 (ptr v) = ?m1" using True by (simp add: given_back_def)
    have "reserve r sizeof_T alignof_T n (v, m, s)
            = Inr (v\<lparr>nAlloc := n, ptr := ra\<rparr>, ?m1,
                   deallocate_object r sizeof_T alignof_T (ptr v) (nAlloc v) s')"
      using nn a by (simp add: reserve_def ob ml gb)
    then show ?thesis using True el z d by (intro exI [of _ ?m1]) simp
  next
    case False
    then obtain region where reg: "m (ptr v) = Some (Live region)"
        "length region = unat (nAlloc v)" "None \<notin> set (take ?k region)"
      using ok by (auto simp add: vector_ok_def split: option.splits allocation.splits)
    have len: "length region = ?k" using reg(2) full by simp
    have el: "elements v m = region"
      using False reg(1) len by (simp add: elements_def live_def)
    have all: "\<forall>j. 0 \<le> j \<and> j < ?k \<longrightarrow> region ! j \<noteq> None"
      using reg(3) len by (metis nth_mem take_all order_refl)
    let ?m2 = "m(ra \<mapsto> Live (region @ replicate (unat n - ?k) None),
                  ptr v \<mapsto> Live (replicate ?k None))"
    have "move_loop ra (ptr v) 0 ?k ?m1
            = Inr (?m1(ra \<mapsto> Live (take 0 (replicate (unat n) None)
                                      @ take (?k - 0) (drop 0 region)
                                      @ drop ?k (replicate (unat n) None)),
                       ptr v \<mapsto> Live (take 0 region @ replicate (?k - 0) None @ drop ?k region)))"
      using ra False d reg(1) len kn all
      by (intro move_loop_gen) simp_all
    then have ml: "move_loop ra (ptr v) 0 ?k ?m1 = Inr ?m2"
      using len by simp
    let ?m3 = "m(ra \<mapsto> Live (region @ replicate (unat n - ?k) None),
                  ptr v \<mapsto> Released (replicate ?k None))"
    have gb: "given_back ?m2 (ptr v) = ?m3" using False by (simp add: given_back_def)
    have "reserve r sizeof_T alignof_T n (v, m, s)
            = Inr (v\<lparr>nAlloc := n, ptr := ra\<rparr>, ?m3,
                   deallocate_object r sizeof_T alignof_T (ptr v) (nAlloc v) s')"
      using nn a by (simp add: reserve_def ob ml gb del: fun_upd_apply)
    then show ?thesis using el d full by (intro exI [of _ ?m3]) simp
  qed
qed





lemma push_back_alias:
  assumes ok: "vector_ok v m" and full: "nStored v = nAlloc v"
    and n: "n = (if nAlloc v = 0 then 4 else 2 * nAlloc v)" and lt: "nAlloc v < n"
    and a: "allocate_object r sizeof_T alignof_T n s = (Inr ra, s')"
    and ra: "ra \<noteq> nullptr" and d: "ra \<noteq> ptr v" and p: "ptr v \<noteq> nullptr"
  shows "push_back r sizeof_T alignof_T (Element (ptr v) i) (v, m, s) = Inl use_after_free"
proof -
  obtain m1 where res: "reserve r sizeof_T alignof_T n (v, m, s)
                 = Inr (v\<lparr>nAlloc := n, ptr := ra\<rparr>, m1,
                        deallocate_object r sizeof_T alignof_T (ptr v) (nAlloc v) s')"
      and m1: "ptr v \<noteq> nullptr \<longrightarrow> m1 (ptr v) = Some (Released (replicate (unat (nAlloc v)) None))"
    using reserve_full [OF ok full lt a ra d] by blast
  have "push_back r sizeof_T alignof_T (Element (ptr v) i) (v, m, s)
          = (case reserve r sizeof_T alignof_T n (v, m, s) of
               Inl e \<Rightarrow> Inl e
             | Inr (v', m, s) \<Rightarrow>
                 (case deref m (Element (ptr v) i) of
                    Inl e \<Rightarrow> Inl e
                  | Inr x \<Rightarrow>
                      (case construct m (ptr v') (unat (nStored v')) x of
                         Inl e \<Rightarrow> Inl e
                       | Inr m' \<Rightarrow> Inr (v'\<lparr>nStored := nStored v' + 1\<rparr>, m', s))))"
    unfolding push_back_def n using full by simp
  then show ?thesis
    unfolding res using m1 p by (simp add: read_def live_def)
qed

lemma push_back_room:
  assumes ok: "vector_ok v m" and room: "nStored v < nAlloc v"
  shows "\<exists>region. m (ptr v) = Some (Live region)
           \<and> push_back r sizeof_T alignof_T (Object x) (v, m, s)
               = Inr (v\<lparr>nStored := nStored v + 1\<rparr>,
                      m(ptr v \<mapsto> Live (region[unat (nStored v) := Some x])), s)"
proof -
  have "nAlloc v \<noteq> 0" using room by (metis word_not_simps(1))
  then have p: "ptr v \<noteq> nullptr" using ok by (auto simp add: vector_ok_def split: if_splits)
  then obtain region where reg: "m (ptr v) = Some (Live region)"
      "length region = unat (nAlloc v)"
    using ok by (auto simp add: vector_ok_def split: option.splits allocation.splits)
  have "unat (nStored v) < length region"
    using reg(2) room by (simp add: word_less_nat_alt)
  moreover have "nAlloc v \<noteq> nStored v" using room by auto
  ultimately show ?thesis
    using p reg(1) by (simp add: push_back_def construct_def live_def)
qed


text \<open>
  An argument that refers to an element of the vector itself is read after \<open>reserve\<close> has
  destroyed the element and given its memory back.
\<close>

lemma push_back_own_element:
  "(case push_back (recording (NewDeleteResource HAVE_NEITHER sample_platform)) 4 4
           (Element 16 0)
           (\<lparr>alloc = polymorphic_allocator_of 7, ptr = 16, nAlloc = 4, nStored = 4\<rparr>,
            (Map.empty :: int memory)(16 \<mapsto> Live [Some 1, Some 2, Some 3, Some 4]),
            (32, [])) of
      Inl e \<Rightarrow> e = use_after_free
    | Inr st \<Rightarrow> False)"
  by code_simp




end
